theory Spec2Isabelle
  imports Main
begin

section \<open>Python strings\<close>

text \<open>
  A Python \<open>str\<close> is a sequence of Unicode code points, so a character is the number of
  its code point and a string a list of them. \<open>of_str\<close> reads an ASCII literal.
\<close>

type_synonym pychar = nat
type_synonym pystr = "nat list"

definition of_str :: "string \<Rightarrow> pystr" where
  "of_str cs = map of_char cs"

text \<open>
  \<open>str.isspace\<close>, \<open>str.strip\<close> and the regular-expression class \<open>\s\<close> of a \<open>str\<close>
  pattern all use the same table of white-space code points: TAB to CR, FS to US, SPACE,
  NEL, NBSP, and the Unicode space separators.
\<close>

definition py_isspace :: "pychar \<Rightarrow> bool" where
  "py_isspace c \<longleftrightarrow>
     (9 \<le> c \<and> c \<le> 13) \<or> (28 \<le> c \<and> c \<le> 32) \<or> c = 133 \<or> c = 160 \<or> c = 5760 \<or>
     (8192 \<le> c \<and> c \<le> 8202) \<or> c = 8232 \<or> c = 8233 \<or> c = 8239 \<or> c = 8287 \<or>
     c = 12288"

text \<open>\<open>s.strip()\<close>: white space removed at both ends.\<close>

definition py_strip :: "pystr \<Rightarrow> pystr" where
  "py_strip s = rev (dropWhile py_isspace (rev (dropWhile py_isspace s)))"

text \<open>
  The decimal digits of Unicode (category Nd, what \<open>\d\<close> matches in a \<open>str\<close> pattern and
  what \<open>int\<close> reads) come in runs of ten, each run holding the digits 0 to 9 in order;
  \<open>decimal_zeros\<close> lists the zero of every run (Unicode 14).
\<close>

definition decimal_zeros :: "pychar list" where
  "decimal_zeros =
    [48, 1632, 1776, 1984, 2406, 2534, 2662, 2790, 2918, 3046, 3174, 3302, 3430, 3558, 3664,
     3792, 3872, 4160, 4240, 6112, 6160, 6470, 6608, 6784, 6800, 6992, 7088, 7232, 7248,
     42528, 43216, 43264, 43472, 43504, 43600, 44016, 65296, 66720, 68912, 69734, 69872,
     69942, 70096, 70384, 70736, 70864, 71248, 71360, 71472, 71904, 72016, 72784, 73040,
     73120, 92768, 92864, 93008, 120782, 120792, 120802, 120812, 120822, 123200, 123632,
     125264, 130032]"

definition py_decimal :: "pychar \<Rightarrow> nat option" where
  "py_decimal c =
     (case find (\<lambda>z. z \<le> c \<and> c < z + 10) decimal_zeros of
        None \<Rightarrow> None
      | Some z \<Rightarrow> Some (c - z))"

section \<open>Regular expressions, as \<open>re.match\<close> runs them\<close>

text \<open>
  The patterns of the program use character classes, greedy repetition of a class,
  the anchors \<open>^\<close> and \<open>$\<close>, sequence, alternation and named groups. The matcher is a
  backtracking one: \<open>run r st\<close> lists every state the matcher can be in after \<open>r\<close>, in
  the order in which backtracking tries them, so that the head of the list is the match
  \<open>re.match\<close> reports. A state is the number of characters consumed, the rest of the
  subject and the groups captured so far.
\<close>

datatype item = Ch pychar | Rng pychar pychar | CatSpace | CatDigit

datatype re =
    Bol
  | Eol
  | Cls bool "item list"
  | Rep bool "item list" nat
  | Seq re re
  | Alt re re
  | Grp string re

type_synonym mstate = "nat \<times> pystr \<times> (string \<times> pystr) list"

fun in_item :: "item \<Rightarrow> pychar \<Rightarrow> bool" where
  "in_item (Ch a) c = (c = a)"
| "in_item (Rng a b) c = (a \<le> c \<and> c \<le> b)"
| "in_item CatSpace c = py_isspace c"
| "in_item CatDigit c = (py_decimal c \<noteq> None)"

text \<open>\<open>in_class neg its\<close> is the class \<open>[...]\<close> of the items, \<open>[^...]\<close> when \<open>neg\<close>.\<close>

definition in_class :: "bool \<Rightarrow> item list \<Rightarrow> pychar \<Rightarrow> bool" where
  "in_class neg its c = (list_ex (\<lambda>it. in_item it c) its \<noteq> neg)"

text \<open>
  \<open>Rep neg its m\<close> is the class repeated \<open>m\<close> times or more, greedily: the longest run
  first. \<open>Eol\<close> is \<open>$\<close> without the MULTILINE flag: the end of the subject, or just
  before a newline that ends it. \<open>Bol\<close> is \<open>^\<close>: the start of the subject.
\<close>

fun run :: "re \<Rightarrow> mstate \<Rightarrow> mstate list" where
  "run Bol (n, rest, caps) = (if n = 0 then [(n, rest, caps)] else [])"
| "run Eol (n, rest, caps) = (if rest = [] \<or> rest = [10] then [(n, rest, caps)] else [])"
| "run (Cls neg its) (n, rest, caps) =
     (case rest of
        [] \<Rightarrow> []
      | c # cs \<Rightarrow> if in_class neg its c then [(Suc n, cs, caps)] else [])"
| "run (Rep neg its m) (n, rest, caps) =
     (let k = length (takeWhile (in_class neg its) rest)
      in map (\<lambda>j. (n + j, drop j rest, caps)) (rev [m..<Suc k]))"
| "run (Seq r1 r2) st = concat (map (run r2) (run r1 st))"
| "run (Alt r1 r2) st = run r1 st @ run r2 st"
| "run (Grp g r) (n, rest, caps) =
     map (\<lambda>(n', rest', caps'). (n', rest', (g, take (n' - n) rest) # caps')) (run r (n, rest, caps))"

fun cat :: "re list \<Rightarrow> re" where
  "cat [r] = r"
| "cat (r # rs) = Seq r (cat rs)"
| "cat [] = Rep False [] 0"

definition Lit :: "char \<Rightarrow> re" where
  "Lit c = Cls False [Ch (of_char c)]"

text \<open>\<open>pattern.match(s)\<close>: the first match at position 0, or \<open>None\<close>.\<close>

definition re_match :: "re \<Rightarrow> pystr \<Rightarrow> mstate option" where
  "re_match r s = (case run r (0, s, []) of [] \<Rightarrow> None | st # _ \<Rightarrow> Some st)"

section \<open>The validation helpers\<close>

text \<open>\<^verbatim>\<open>EMAIL_RE = re.compile(r"^[^@\s]+@[^@\s]+\.[^@\s]+$")\<close>\<close>

definition EMAIL_RE :: re where
  "EMAIL_RE =
     cat [Bol, Rep True [Ch (of_char CHR ''@''), CatSpace] 1, Lit CHR ''@'',
          Rep True [Ch (of_char CHR ''@''), CatSpace] 1, Lit CHR ''.'',
          Rep True [Ch (of_char CHR ''@''), CatSpace] 1, Eol]"

text \<open>\<^verbatim>\<open>PHONE_RE = re.compile(r"^[0-9\s\-\+\(\)]{7,}$")\<close>\<close>

definition PHONE_RE :: re where
  "PHONE_RE =
     cat [Bol,
          Rep False [Rng (of_char CHR ''0'') (of_char CHR ''9''), CatSpace, Ch (of_char CHR ''-''),
                     Ch (of_char CHR ''+''), Ch (of_char CHR ''(''), Ch (of_char CHR '')'')] 7,
          Eol]"

definition validate_name :: "pystr \<Rightarrow> bool" where
  "validate_name name = (py_strip name \<noteq> [])"

definition validate_email :: "pystr \<Rightarrow> bool" where
  "validate_email email = (re_match EMAIL_RE email \<noteq> None)"

definition validate_phone :: "pystr \<Rightarrow> bool" where
  "validate_phone phone = (re_match PHONE_RE phone \<noteq> None)"

definition validate_address :: "pystr \<Rightarrow> bool" where
  "validate_address address = (length (py_strip address) > 0)"

section \<open>\<open>datetime.strptime(bday, "%Y-%m-%d")\<close>\<close>

text \<open>
  The exceptions of the model. \<open>UnicodeEncodeError\<close> is a subclass of \<open>ValueError\<close>;
  \<open>OperationalError\<close>, \<open>IntegrityError\<close>, \<open>ProgrammingError\<close> and \<open>DataError\<close> are
  the ones of \<open>sqlite3\<close>.
\<close>

datatype py_error =
    ValueError
  | UnicodeEncodeError
  | OverflowError
  | OperationalError
  | IntegrityError
  | ProgrammingError
  | DataError

definition sqlite_error :: "py_error \<Rightarrow> bool" where
  "sqlite_error err \<longleftrightarrow>
     err = OperationalError \<or> err = IntegrityError \<or> err = ProgrammingError \<or> err = DataError"

text \<open>
  \<open>int(s)\<close> on the text of a group: white space is stripped at both ends and the rest
  is read as decimal digits of any script. (\<open>int\<close> also reads a sign and underscores
  between digits; no group of the pattern below can hold either.)
\<close>

fun digits_value :: "nat \<Rightarrow> pystr \<Rightarrow> nat option" where
  "digits_value acc [] = Some acc"
| "digits_value acc (c # cs) =
     (case py_decimal c of
        None \<Rightarrow> None
      | Some d \<Rightarrow> digits_value (10 * acc + d) cs)"

definition py_int :: "pystr \<Rightarrow> py_error + nat" where
  "py_int s =
     (let t = py_strip s
      in if t = [] then Inl ValueError
         else case digits_value 0 t of None \<Rightarrow> Inl ValueError | Some v \<Rightarrow> Inr v)"

text \<open>
  The date that \<open>strptime\<close> builds; the time of day of the \<open>datetime\<close> is zero for this
  format. \<open>datetime_date\<close> is the constructor with its range checks
  (\<open>MINYEAR = 1\<close>, \<open>MAXYEAR = 9999\<close>, the proleptic Gregorian calendar).
\<close>

record date =
  year :: nat
  month :: nat
  day :: nat

definition is_leap :: "nat \<Rightarrow> bool" where
  "is_leap y \<longleftrightarrow> y mod 4 = 0 \<and> (y mod 100 \<noteq> 0 \<or> y mod 400 = 0)"

definition days_in_month :: "nat \<Rightarrow> nat \<Rightarrow> nat" where
  "days_in_month y m =
     (if m = 2 \<and> is_leap y then 29
      else if m = 2 then 28
      else if m = 4 \<or> m = 6 \<or> m = 9 \<or> m = 11 then 30
      else 31)"

definition datetime_date :: "nat \<Rightarrow> nat \<Rightarrow> nat \<Rightarrow> py_error + date" where
  "datetime_date y m d =
     (if \<not> (1 \<le> y \<and> y \<le> 9999) then Inl ValueError
      else if \<not> (1 \<le> m \<and> m \<le> 12) then Inl ValueError
      else if \<not> (1 \<le> d \<and> d \<le> days_in_month y m) then Inl ValueError
      else Inr \<lparr>year = y, month = m, day = d\<rparr>)"

text \<open>
  The pattern that \<open>_strptime\<close> compiles for the format \<open>%Y-%m-%d\<close>:
  \<^verbatim>\<open>(?P<Y>\d\d\d\d)-(?P<m>1[0-2]|0[1-9]|[1-9])-(?P<d>3[0-1]|[1-2]\d|0[1-9]|[1-9]| [1-9])\<close>
  (compiled with IGNORECASE, which changes nothing for digits, the hyphen and the space).
\<close>

definition rng :: "char \<Rightarrow> char \<Rightarrow> re" where
  "rng a b = Cls False [Rng (of_char a) (of_char b)]"

definition STRPTIME_RE :: re where
  "STRPTIME_RE =
     cat [Grp ''Y'' (cat [Cls False [CatDigit], Cls False [CatDigit], Cls False [CatDigit],
                          Cls False [CatDigit]]),
          Lit CHR ''-'',
          Grp ''m'' (Alt (cat [Lit CHR ''1'', rng CHR ''0'' CHR ''2''])
                    (Alt (cat [Lit CHR ''0'', rng CHR ''1'' CHR ''9''])
                         (rng CHR ''1'' CHR ''9''))),
          Lit CHR ''-'',
          Grp ''d'' (Alt (cat [Lit CHR ''3'', rng CHR ''0'' CHR ''1''])
                    (Alt (cat [rng CHR ''1'' CHR ''2'', Cls False [CatDigit]])
                    (Alt (cat [Lit CHR ''0'', rng CHR ''1'' CHR ''9''])
                    (Alt (rng CHR ''1'' CHR ''9'')
                         (cat [Lit CHR '' '', rng CHR ''1'' CHR ''9''])))))]"

text \<open>
  \<open>strptime\<close>: no match, or a match that stops before the end of the string
  (\<open>len(data_string) != found.end()\<close>), raises \<open>ValueError\<close>; then the groups are read
  with \<open>int\<close> and the date is built.
\<close>

definition group :: "(string \<times> pystr) list \<Rightarrow> string \<Rightarrow> py_error + nat" where
  "group caps g = (case map_of caps g of None \<Rightarrow> Inl ValueError | Some t \<Rightarrow> py_int t)"

definition strptime :: "pystr \<Rightarrow> py_error + date" where
  "strptime data_string =
     (case re_match STRPTIME_RE data_string of
        None \<Rightarrow> Inl ValueError
      | Some (e, rest, caps) \<Rightarrow>
          if length data_string \<noteq> e then Inl ValueError
          else (case group caps ''Y'' of
                  Inl err \<Rightarrow> Inl err
                | Inr y \<Rightarrow>
                    (case group caps ''m'' of
                       Inl err \<Rightarrow> Inl err
                     | Inr m \<Rightarrow>
                         (case group caps ''d'' of
                            Inl err \<Rightarrow> Inl err
                          | Inr d \<Rightarrow> datetime_date y m d))))"

definition validate_birthday :: "pystr \<Rightarrow> bool" where
  "validate_birthday bday = (case strptime bday of Inr _ \<Rightarrow> True | Inl _ \<Rightarrow> False)"

section \<open>The store: one SQLite table\<close>

text \<open>
  What the program uses of SQLite is modelled as SQLite and Python's \<open>sqlite3\<close> document
  it. A stored value is NULL, an integer, a text or a blob. A table has the columns of its
  \<open>CREATE TABLE\<close> statement with their declared types and constraints, its rows, and the
  largest row id it ever gave out (the \<open>sqlite_sequence\<close> entry of an AUTOINCREMENT key).
  The database file holds the table \<open>customers\<close> or does not hold it yet.
\<close>

datatype sqlval = Null | Integer int | Text pystr | Blob "nat list"

datatype coltype = INTEGER | TEXT | TIMESTAMP

datatype constr = PrimaryKeyAutoincrement | NotNull | CheckIn "pystr list" | DefaultCurrentTimestamp

type_synonym schema = "(string \<times> coltype \<times> constr list) list"

type_synonym row = "(string \<times> sqlval) list"

record table =
  t_schema :: schema
  t_rows :: "row list"
  t_seq :: nat

type_synonym database = "table option"

text \<open>
  \<^verbatim>\<open>
  CREATE TABLE IF NOT EXISTS customers (
      id INTEGER PRIMARY KEY AUTOINCREMENT,
      name TEXT NOT NULL,
      birthday TEXT NOT NULL,
      email TEXT NOT NULL,
      phone TEXT NOT NULL,
      address TEXT NOT NULL,
      preferred_contact TEXT NOT NULL CHECK (preferred_contact IN ('Email','Phone','Mail')),
      created_at TIMESTAMP DEFAULT CURRENT_TIMESTAMP
  );\<close>
\<close>

definition TABLE_SQL :: schema where
  "TABLE_SQL =
     [(''id'', INTEGER, [PrimaryKeyAutoincrement]),
      (''name'', TEXT, [NotNull]),
      (''birthday'', TEXT, [NotNull]),
      (''email'', TEXT, [NotNull]),
      (''phone'', TEXT, [NotNull]),
      (''address'', TEXT, [NotNull]),
      (''preferred_contact'', TEXT,
         [NotNull, CheckIn [of_str ''Email'', of_str ''Phone'', of_str ''Mail'']]),
      (''created_at'', TIMESTAMP, [DefaultCurrentTimestamp])]"

definition create_table_if_not_exists :: "schema \<Rightarrow> database \<Rightarrow> database" where
  "create_table_if_not_exists sch db =
     (case db of
        None \<Rightarrow> Some \<lparr>t_schema = sch, t_rows = [], t_seq = 0\<rparr>
      | Some t \<Rightarrow> Some t)"

text \<open>
  The values of the dictionary that \<open>save_to_db\<close> receives: \<open>None\<close>, an \<open>int\<close>, a
  \<open>str\<close> or a \<open>bytes\<close>. (A \<open>float\<close> and an object that needs an adapter are not
  modelled.) Binding one value: \<open>None\<close> is NULL; an \<open>int\<close> must fit 64 bits, else
  \<open>OverflowError\<close>; a \<open>str\<close> is encoded in UTF-8, which a surrogate code point does not
  allow, else \<open>UnicodeEncodeError\<close> (a code point above \<open>0x10FFFF\<close> is no character of a
  \<open>str\<close>); a \<open>bytes\<close> is a blob. The bytes of a text or a blob are counted: more than
  \<open>INT_MAX\<close> of them raise \<open>OverflowError\<close>, and more than the engine takes for one value
  (\<open>SQLITE_MAX_LENGTH\<close>, a thousand million) raise \<open>DataError\<close>.
\<close>

datatype pyval = PyNone | PyInt int | PyStr pystr | PyBytes "nat list"

definition utf8_char :: "pychar \<Rightarrow> bool" where
  "utf8_char c \<longleftrightarrow> c < 0xD800 \<or> (0xDFFF < c \<and> c \<le> 0x10FFFF)"

definition utf8_size :: "pychar \<Rightarrow> nat" where
  "utf8_size c = (if c < 0x80 then 1 else if c < 0x800 then 2 else if c < 0x10000 then 3 else 4)"

definition utf8_length :: "pystr \<Rightarrow> nat" where
  "utf8_length s = sum_list (map utf8_size s)"

definition INT_MAX :: nat where
  "INT_MAX = 2 ^ 31 - 1"

definition SQLITE_MAX_LENGTH :: nat where
  "SQLITE_MAX_LENGTH = 1000000000"

definition bind_sized :: "nat \<Rightarrow> sqlval \<Rightarrow> py_error + sqlval" where
  "bind_sized n v =
     (if n > INT_MAX then Inl OverflowError
      else if n > SQLITE_MAX_LENGTH then Inl DataError
      else Inr v)"

fun bind_value :: "pyval \<Rightarrow> py_error + sqlval" where
  "bind_value PyNone = Inr Null"
| "bind_value (PyInt i) = (if - (2 ^ 63) \<le> i \<and> i < 2 ^ 63 then Inr (Integer i) else Inl OverflowError)"
| "bind_value (PyStr s) =
     (if list_all utf8_char s then bind_sized (utf8_length s) (Text s) else Inl UnicodeEncodeError)"
| "bind_value (PyBytes b) = bind_sized (length b) (Blob b)"

text \<open>
  The text of an integer, as SQLite writes it when the integer goes to a column of TEXT
  affinity: decimal digits, with a minus sign when negative.
\<close>

fun digits_of :: "nat \<Rightarrow> pystr" where
  "digits_of n = (if n < 10 then [48 + n] else digits_of (n div 10) @ [48 + n mod 10])"

definition text_of_int :: "int \<Rightarrow> pystr" where
  "text_of_int i = (if i < 0 then of_char CHR ''-'' # digits_of (nat (- i)) else digits_of (nat i))"

text \<open>
  Column affinity, applied to a bound value before the constraints are checked and the
  row is stored. A TEXT column turns an integer into its text and keeps NULL, text and
  blob. INTEGER and TIMESTAMP columns have numeric affinity, which turns a text that reads
  as a number into the number; SQLite's reading of numbers is not spelled out here and is
  taken as the parameter \<open>numeric\<close>.
\<close>

fun apply_affinity :: "(sqlval \<Rightarrow> sqlval) \<Rightarrow> coltype \<Rightarrow> sqlval \<Rightarrow> sqlval" where
  "apply_affinity numeric TEXT (Integer i) = Text (text_of_int i)"
| "apply_affinity numeric TEXT v = v"
| "apply_affinity numeric INTEGER v = numeric v"
| "apply_affinity numeric TIMESTAMP v = numeric v"

text \<open>
  One constraint on one value. A CHECK whose expression is NULL passes; the comparison of
  \<open>IN\<close> is the binary one, so it is case sensitive, and a blob or an integer equals no
  text.
\<close>

fun constr_ok :: "sqlval \<Rightarrow> constr \<Rightarrow> bool" where
  "constr_ok v NotNull = (v \<noteq> Null)"
| "constr_ok v (CheckIn allowed) = (v = Null \<or> v \<in> Text ` set allowed)"
| "constr_ok v PrimaryKeyAutoincrement = True"
| "constr_ok v DefaultCurrentTimestamp = True"

text \<open>
  The size of a row as the engine writes it, which must not exceed \<open>SQLITE_MAX_LENGTH\<close>
  either: a header, with one variable-length integer for the size of the header and one
  for the type of each column, and then the values. NULL and the integers 0 and 1 take no
  byte after the header, another integer takes 1, 2, 3, 4, 6 or 8 bytes, a text and a blob
  take their bytes. The row id of an INTEGER PRIMARY KEY column is kept outside the row,
  and the column holds NULL there.
\<close>

definition varint_len :: "nat \<Rightarrow> nat" where
  "varint_len n =
     (if n < 2 ^ 7 then 1 else if n < 2 ^ 14 then 2 else if n < 2 ^ 21 then 3
      else if n < 2 ^ 28 then 4 else if n < 2 ^ 35 then 5 else if n < 2 ^ 42 then 6
      else if n < 2 ^ 49 then 7 else if n < 2 ^ 56 then 8 else 9)"

definition integer_size :: "int \<Rightarrow> nat" where
  "integer_size i =
     (let u = (if i < 0 then - i - 1 else i)
      in if u \<le> 127 then (if i = 0 \<or> i = 1 then 0 else 1)
         else if u \<le> 32767 then 2
         else if u \<le> 8388607 then 3
         else if u \<le> 2147483647 then 4
         else if u \<le> 140737488355327 then 6
         else 8)"

fun header_size :: "sqlval \<Rightarrow> nat" where
  "header_size Null = 1"
| "header_size (Integer i) = 1"
| "header_size (Text s) = varint_len (2 * utf8_length s + 13)"
| "header_size (Blob b) = varint_len (2 * length b + 12)"

fun data_size :: "sqlval \<Rightarrow> nat" where
  "data_size Null = 0"
| "data_size (Integer i) = integer_size i"
| "data_size (Text s) = utf8_length s"
| "data_size (Blob b) = length b"

definition record_size :: "sqlval list \<Rightarrow> nat" where
  "record_size vs =
     (let h = sum_list (map header_size vs);
          n = varint_len h
      in (if h \<le> 126 then h + 1 else if n < varint_len (h + n) then h + n + 1 else h + n)
         + sum_list (map data_size vs))"

text \<open>
  The world outside the program: whether the file can be opened, whether the engine can
  run a statement, whether it can commit (a failure of each is an I/O error, a locked or
  full disk), the clock as \<open>CURRENT_TIMESTAMP\<close> writes it (\<open>YYYY-MM-DD HH:MM:SS\<close>), and
  the engine's numeric affinity.
\<close>

record env =
  connect_ok :: bool
  execute_ok :: bool
  commit_ok :: bool
  now :: pystr
  numeric :: "sqlval \<Rightarrow> sqlval"

text \<open>
  The value of a column of the new row: the value bound to it, after the affinity of the
  column, when the statement names the column; else the next row id for the AUTOINCREMENT
  key, the clock for \<open>DEFAULT CURRENT_TIMESTAMP\<close>, and NULL otherwise.
\<close>

definition column_value :: "env \<Rightarrow> nat \<Rightarrow> row \<Rightarrow> string \<times> coltype \<times> constr list \<Rightarrow> sqlval" where
  "column_value e next bound col =
     (case map_of bound (fst col) of
        Some v \<Rightarrow> apply_affinity (numeric e) (fst (snd col)) v
      | None \<Rightarrow>
          if PrimaryKeyAutoincrement \<in> set (snd (snd col)) then Integer (int next)
          else if DefaultCurrentTimestamp \<in> set (snd (snd col)) then Text (now e)
          else Null)"

text \<open>
  The columns and named parameters of
  \<^verbatim>\<open>INSERT INTO customers (name, birthday, email, phone, address, preferred_contact)
  VALUES (:name, :birthday, :email, :phone, :address, :preferred_contact);\<close>
\<close>

definition INSERT_COLUMNS :: "string list" where
  "INSERT_COLUMNS = [''name'', ''birthday'', ''email'', ''phone'', ''address'', ''preferred_contact'']"

text \<open>
  Preparing the statement fails when the table or one of the columns is missing. The
  parameters are bound one after the other, in the order of the statement: a parameter
  that \<open>data\<close> lacks raises \<open>ProgrammingError\<close>, a value that cannot be bound raises its
  error, and the first of them ends the binding. Running the statement fails when the row
  ids are used up (the largest is \<open>2^63 - 1\<close>), when a constraint is violated, or when
  the row is too big, in this order; otherwise the one row is added.
\<close>

definition sql_prepare_insert :: "database \<Rightarrow> py_error + table" where
  "sql_prepare_insert db =
     (case db of
        None \<Rightarrow> Inl OperationalError
      | Some t \<Rightarrow>
          if list_all (\<lambda>c. map_of (t_schema t) c \<noteq> None) INSERT_COLUMNS then Inr t
          else Inl OperationalError)"

fun bind_all :: "string list \<Rightarrow> (string \<times> pyval) list \<Rightarrow> py_error + row" where
  "bind_all [] data = Inr []"
| "bind_all (c # cs) data =
     (case map_of data c of
        None \<Rightarrow> Inl ProgrammingError
      | Some v \<Rightarrow>
          (case bind_value v of
             Inl err \<Rightarrow> Inl err
           | Inr x \<Rightarrow>
               (case bind_all cs data of
                  Inl err \<Rightarrow> Inl err
                | Inr xs \<Rightarrow> Inr ((c, x) # xs))))"

definition bind_parameters :: "(string \<times> pyval) list \<Rightarrow> py_error + row" where
  "bind_parameters data = bind_all INSERT_COLUMNS data"

definition written_value :: "env \<Rightarrow> nat \<Rightarrow> row \<Rightarrow> string \<times> coltype \<times> constr list \<Rightarrow> sqlval" where
  "written_value e next bound col =
     (if PrimaryKeyAutoincrement \<in> set (snd (snd col)) then Null else column_value e next bound col)"

definition sql_step_insert :: "env \<Rightarrow> row \<Rightarrow> table \<Rightarrow> py_error + table" where
  "sql_step_insert e bound t =
     (let next = Suc (t_seq t);
          new = map (\<lambda>col. (fst col, column_value e next bound col)) (t_schema t)
      in if next > 2 ^ 63 - 1 then Inl OperationalError
         else if \<not> list_all (\<lambda>col. list_all (constr_ok (column_value e next bound col)) (snd (snd col)))
                    (t_schema t)
         then Inl IntegrityError
         else if record_size (map (written_value e next bound) (t_schema t)) > SQLITE_MAX_LENGTH
         then Inl DataError
         else Inr (t\<lparr>t_rows := t_rows t @ [new], t_seq := next\<rparr>))"

text \<open>
  A connection: the database as the file holds it, and the working copy of the open
  transaction when there is one. Python's \<open>sqlite3\<close> begins a transaction before an
  INSERT, not before a CREATE TABLE; a statement that fails changes nothing; closing the
  connection drops a transaction that was not committed.
\<close>

record connection =
  on_disk :: database
  in_txn :: "database option"

definition sqlite3_connect :: "env \<Rightarrow> database \<Rightarrow> py_error + connection" where
  "sqlite3_connect e db =
     (if connect_ok e then Inr \<lparr>on_disk = db, in_txn = None\<rparr> else Inl OperationalError)"

definition current :: "connection \<Rightarrow> database" where
  "current con = (case in_txn con of None \<Rightarrow> on_disk con | Some w \<Rightarrow> w)"

definition execute_create :: "env \<Rightarrow> schema \<Rightarrow> connection \<Rightarrow> (py_error + unit) \<times> connection" where
  "execute_create e sch con =
     (if \<not> execute_ok e then (Inl OperationalError, con)
      else case in_txn con of
             None \<Rightarrow> (Inr (), con\<lparr>on_disk := create_table_if_not_exists sch (on_disk con)\<rparr>)
           | Some w \<Rightarrow> (Inr (), con\<lparr>in_txn := Some (create_table_if_not_exists sch w)\<rparr>))"

definition execute_insert ::
  "env \<Rightarrow> (string \<times> pyval) list \<Rightarrow> connection \<Rightarrow> (py_error + unit) \<times> connection" where
  "execute_insert e data con =
     (case sql_prepare_insert (current con) of
        Inl err \<Rightarrow> (Inl err, con)
      | Inr t \<Rightarrow>
          (let con1 = con\<lparr>in_txn := Some (current con)\<rparr>
           in case bind_parameters data of
                Inl err \<Rightarrow> (Inl err, con1)
              | Inr bound \<Rightarrow>
                  if \<not> execute_ok e then (Inl OperationalError, con1)
                  else (case sql_step_insert e bound t of
                          Inl err \<Rightarrow> (Inl err, con1)
                        | Inr t' \<Rightarrow> (Inr (), con\<lparr>in_txn := Some (Some t')\<rparr>))))"

definition con_commit :: "env \<Rightarrow> connection \<Rightarrow> (py_error + unit) \<times> connection" where
  "con_commit e con =
     (case in_txn con of
        None \<Rightarrow> (Inr (), con)
      | Some w \<Rightarrow>
          if commit_ok e then (Inr (), \<lparr>on_disk = w, in_txn = None\<rparr>)
          else (Inl OperationalError, con))"

definition con_rollback :: "connection \<Rightarrow> connection" where
  "con_rollback con = con\<lparr>in_txn := None\<rparr>"

definition con_close :: "connection \<Rightarrow> database" where
  "con_close con = on_disk con"

text \<open>
  \<^verbatim>\<open>
  def init_db():
      con = sqlite3.connect(DB_PATH)
      try:
          con.execute(TABLE_SQL)
          con.commit()
      finally:
          con.close()\<close>
  The result is the exception raised, if any, and the database file afterwards.
\<close>

definition init_db :: "env \<Rightarrow> database \<Rightarrow> (py_error + unit) \<times> database" where
  "init_db e db =
     (case sqlite3_connect e db of
        Inl err \<Rightarrow> (Inl err, db)
      | Inr con \<Rightarrow>
          (case execute_create e TABLE_SQL con of
             (Inl err, con1) \<Rightarrow> (Inl err, con_close con1)
           | (Inr _, con1) \<Rightarrow>
               (case con_commit e con1 of
                  (res, con2) \<Rightarrow> (res, con_close con2))))"

text \<open>
  \<^verbatim>\<open>
  def save_to_db(self, data: dict):
      con = sqlite3.connect(DB_PATH)
      try:
          with con:
              con.execute("INSERT ...", data)
      finally:
          con.close()\<close>
  \<open>with con\<close> commits when its body ends normally and rolls back when it raises; the
  exception goes on to the caller in both cases.
\<close>

definition with_con :: "env \<Rightarrow> (py_error + unit) \<times> connection \<Rightarrow> (py_error + unit) \<times> connection" where
  "with_con e body =
     (case body of
        (Inl err, con1) \<Rightarrow> (Inl err, con_rollback con1)
      | (Inr _, con1) \<Rightarrow>
          (case con_commit e con1 of
             (Inl err, con2) \<Rightarrow> (Inl err, con_rollback con2)
           | (Inr u, con2) \<Rightarrow> (Inr u, con2)))"

definition save_to_db :: "env \<Rightarrow> (string \<times> pyval) list \<Rightarrow> database \<Rightarrow> (py_error + unit) \<times> database" where
  "save_to_db e data db =
     (case sqlite3_connect e db of
        Inl err \<Rightarrow> (Inl err, db)
      | Inr con \<Rightarrow>
          (case with_con e (execute_insert e data con) of
             (res, con1) \<Rightarrow> (res, con_close con1)))"

section \<open>The form and its submit action\<close>

text \<open>
  The state of the form: the five bound variables and the content of the address box.
  \<open>txt_address.get("1.0", "end")\<close> is the content of the box followed by the newline
  that a Tk text widget always ends with.
\<close>

record form =
  var_name :: pystr
  var_bday :: pystr
  var_email :: pystr
  var_phone :: pystr
  var_contact :: pystr
  txt_address :: pystr

definition txt_get_all :: "pystr \<Rightarrow> pystr" where
  "txt_get_all content = content @ [10]"

text \<open>What \<open>on_submit\<close> calls, in order: the message boxes it shows and the save.\<close>

datatype event =
    ShowError pystr pystr
  | ShowErrorExc pystr pystr py_error
  | ShowInfo pystr pystr
  | SaveToDb "(string \<times> pyval) list"

definition bullet :: pystr where
  "bullet = [8226, 32]"

definition MSG_NAME :: pystr where
  "MSG_NAME = bullet @ of_str ''Name is required.''"

definition MSG_BDAY :: pystr where
  "MSG_BDAY = bullet @ of_str ''Birthday must be in YYYY-MM-DD format (e.g., 2001-04-09).''"

definition MSG_EMAIL :: pystr where
  "MSG_EMAIL = bullet @ of_str ''Email appears invalid (e.g., name@example.com).''"

definition MSG_PHONE :: pystr where
  "MSG_PHONE = bullet @ of_str ''Phone appears invalid (allow digits, spaces, +, -, parentheses).''"

definition MSG_ADDRESS :: pystr where
  "MSG_ADDRESS = bullet @ of_str ''Address is required.''"

definition MSG_CONTACT :: pystr where
  "MSG_CONTACT = bullet @ of_str ''Preferred contact must be Email, Phone, or Mail.''"

definition CONTACTS :: "pystr list" where
  "CONTACTS = [of_str ''Email'', of_str ''Phone'', of_str ''Mail'']"

text \<open>
  The validation block of \<open>on_submit\<close>, on the six stripped values: \<open>errors\<close> starts
  empty and each failing check appends its message.
\<close>

definition validate_all :: "pystr \<Rightarrow> pystr \<Rightarrow> pystr \<Rightarrow> pystr \<Rightarrow> pystr \<Rightarrow> pystr \<Rightarrow> pystr list" where
  "validate_all name bday email phone address contact =
     (let errors = [];
          errors = (if \<not> validate_name name then errors @ [MSG_NAME] else errors);
          errors = (if \<not> validate_birthday bday then errors @ [MSG_BDAY] else errors);
          errors = (if \<not> validate_email email then errors @ [MSG_EMAIL] else errors);
          errors = (if \<not> validate_phone phone then errors @ [MSG_PHONE] else errors);
          errors = (if \<not> validate_address address then errors @ [MSG_ADDRESS] else errors);
          errors = (if contact \<notin> set CONTACTS then errors @ [MSG_CONTACT] else errors)
      in errors)"

fun py_join :: "pystr \<Rightarrow> pystr list \<Rightarrow> pystr" where
  "py_join sep [] = []"
| "py_join sep [x] = x"
| "py_join sep (x # xs) = x @ sep @ py_join sep xs"

definition clear_form :: "form \<Rightarrow> form" where
  "clear_form f =
     f\<lparr>var_name := [], var_bday := [], var_email := [], var_phone := [],
       var_contact := of_str ''Email'', txt_address := []\<rparr>"

definition record_of ::
  "pystr \<Rightarrow> pystr \<Rightarrow> pystr \<Rightarrow> pystr \<Rightarrow> pystr \<Rightarrow> pystr \<Rightarrow> (string \<times> pyval) list" where
  "record_of name bday email phone address contact =
     [(''name'', PyStr name), (''birthday'', PyStr bday), (''email'', PyStr email),
      (''phone'', PyStr phone), (''address'', PyStr address), (''preferred_contact'', PyStr contact)]"

text \<open>
  \<open>on_submit\<close>: strip the six values, validate, show the errors and return when there
  are any; else save, and either confirm and clear the form or show the exception.
  The result is the form, the database file and the calls made.
\<close>

definition on_submit :: "env \<Rightarrow> form \<Rightarrow> database \<Rightarrow> form \<times> database \<times> event list" where
  "on_submit e f db =
     (let name = py_strip (var_name f);
          bday = py_strip (var_bday f);
          email = py_strip (var_email f);
          phone = py_strip (var_phone f);
          address = py_strip (txt_get_all (txt_address f));
          contact = py_strip (var_contact f);
          errors = validate_all name bday email phone address contact
      in if errors \<noteq> []
         then (f, db, [ShowError (of_str ''Please fix the following'') (py_join [10] errors)])
         else (let data = record_of name bday email phone address contact
               in case save_to_db e data db of
                    (Inr _, db') \<Rightarrow>
                      (clear_form f, db',
                       [SaveToDb data, ShowInfo (of_str ''Success'') (of_str ''Customer information saved.'')])
                  | (Inl err, db') \<Rightarrow>
                      (f, db',
                       [SaveToDb data,
                        ShowErrorExc (of_str ''Error'') (of_str ''Could not save data:'' @ [10]) err])))"

section \<open>The field constraints, in the words of the specification\<close>

text \<open>
  An email address: one or more characters that are neither \<open>@\<close> nor white space, then
  \<open>@\<close>, then one or more such characters, then a dot, then one or more such characters,
  and nothing else.
\<close>

definition email_char :: "pychar \<Rightarrow> bool" where
  "email_char c \<longleftrightarrow> c \<noteq> of_char CHR ''@'' \<and> \<not> py_isspace c"

definition email_shape :: "pystr \<Rightarrow> bool" where
  "email_shape s \<longleftrightarrow>
     (\<exists>a b c. s = a @ of_str ''@'' @ b @ of_str ''.'' @ c \<and>
        a \<noteq> [] \<and> b \<noteq> [] \<and> c \<noteq> [] \<and>
        list_all email_char a \<and> list_all email_char b \<and> list_all email_char c)"

text \<open>
  A phone number as the pattern has it (\<open>phone_char\<close>: \<open>\s\<close> is any white-space
  character) and as the specification words it (\<open>phone_char_spec\<close>: the space character
  only).
\<close>

definition phone_char :: "pychar \<Rightarrow> bool" where
  "phone_char c \<longleftrightarrow>
     (of_char CHR ''0'' \<le> c \<and> c \<le> of_char CHR ''9'') \<or> py_isspace c \<or>
     c \<in> set (of_str ''-+()'')"

definition phone_char_spec :: "pychar \<Rightarrow> bool" where
  "phone_char_spec c \<longleftrightarrow>
     (of_char CHR ''0'' \<le> c \<and> c \<le> of_char CHR ''9'') \<or> c \<in> set (of_str '' +-()'')"

definition phone_spec :: "pystr \<Rightarrow> bool" where
  "phone_spec s \<longleftrightarrow> list_all phone_char_spec s \<and> 7 \<le> length s"

text \<open>
  The \<open>YYYY-MM-DD\<close> rendering of a date: four digits, two digits, two digits, zero
  padded, with hyphens. A birthday is well formed when it is the rendering of a date of
  the calendar.
\<close>

definition digit_char :: "nat \<Rightarrow> pychar" where
  "digit_char n = of_char CHR ''0'' + n mod 10"

definition iso_format :: "date \<Rightarrow> pystr" where
  "iso_format dt =
     [digit_char (year dt div 1000), digit_char (year dt div 100), digit_char (year dt div 10),
      digit_char (year dt), of_char CHR ''-'',
      digit_char (month dt div 10), digit_char (month dt), of_char CHR ''-'',
      digit_char (day dt div 10), digit_char (day dt)]"

definition valid_date :: "date \<Rightarrow> bool" where
  "valid_date dt \<longleftrightarrow>
     1 \<le> year dt \<and> year dt \<le> 9999 \<and> 1 \<le> month dt \<and> month dt \<le> 12 \<and>
     1 \<le> day dt \<and> day dt \<le> days_in_month (year dt) (month dt)"

definition birthday_spec :: "pystr \<Rightarrow> bool" where
  "birthday_spec s \<longleftrightarrow> (\<exists>dt. valid_date dt \<and> s = iso_format dt)"

section \<open>Notions used to state the properties\<close>

text \<open>
  The errors that \<open>on_submit\<close> computes for a form and the record it saves: the
  validation block and the dictionary, on the six stripped values.
\<close>

definition form_errors :: "form \<Rightarrow> pystr list" where
  "form_errors f =
     validate_all (py_strip (var_name f)) (py_strip (var_bday f)) (py_strip (var_email f))
       (py_strip (var_phone f)) (py_strip (txt_get_all (txt_address f))) (py_strip (var_contact f))"

definition form_record :: "form \<Rightarrow> (string \<times> pyval) list" where
  "form_record f =
     record_of (py_strip (var_name f)) (py_strip (var_bday f)) (py_strip (var_email f))
       (py_strip (var_phone f)) (py_strip (txt_get_all (txt_address f))) (py_strip (var_contact f))"

fun is_save :: "event \<Rightarrow> bool" where
  "is_save (SaveToDb d) = True"
| "is_save _ = False"

text \<open>The all-invalid submission of the specification.\<close>

definition invalid_form :: form where
  "invalid_form = \<lparr>var_name = [], var_bday = of_str ''1990-13-40'', var_email = of_str ''bad'',
     var_phone = of_str ''123'', var_contact = of_str ''Fax'', txt_address = []\<rparr>"

text \<open>The row that the INSERT adds to a table, given the bound values.\<close>

definition new_row :: "env \<Rightarrow> row \<Rightarrow> table \<Rightarrow> row" where
  "new_row e bound t =
     map (\<lambda>col. (fst col, column_value e (Suc (t_seq t)) bound col)) (t_schema t)"

text \<open>
  A database that this program made: no table yet, or the table of \<open>TABLE_SQL\<close>.
\<close>

definition customers_db :: "database \<Rightarrow> bool" where
  "customers_db db = (case db of None \<Rightarrow> True | Some t \<Rightarrow> t_schema t = TABLE_SQL)"

text \<open>
  A record whose six values can be bound (a parameter it lacks is not counted here), a
  record that has the six parameters, and what a column of \<open>TABLE_SQL\<close> stores for a
  value: the six columns are TEXT columns.
\<close>

definition bindable :: "pyval \<Rightarrow> bool" where
  "bindable v = (case bind_value v of Inl err \<Rightarrow> False | Inr x \<Rightarrow> True)"

definition record_bindable :: "(string \<times> pyval) list \<Rightarrow> bool" where
  "record_bindable data =
     list_all (\<lambda>c. case map_of data c of None \<Rightarrow> True | Some v \<Rightarrow> bindable v) INSERT_COLUMNS"

definition record_complete :: "(string \<times> pyval) list \<Rightarrow> bool" where
  "record_complete data = list_all (\<lambda>c. map_of data c \<noteq> None) INSERT_COLUMNS"

fun stored :: "pyval \<Rightarrow> sqlval" where
  "stored PyNone = Null"
| "stored (PyInt i) = Text (text_of_int i)"
| "stored (PyStr s) = Text s"
| "stored (PyBytes b) = Blob b"

text \<open>
  Concrete inputs for the examples: an environment in which nothing fails, the table as
  \<open>init_db\<close> creates it, and the valid submission of the specification with a chosen
  preferred contact, as a record and as the row stored for it.
\<close>

definition ok_env :: env where
  "ok_env = \<lparr>connect_ok = True, execute_ok = True, commit_ok = True,
     now = of_str ''2025-01-01 00:00:00'', numeric = (\<lambda>v. v)\<rparr>"

definition empty_table :: table where
  "empty_table = \<lparr>t_schema = TABLE_SQL, t_rows = [], t_seq = 0\<rparr>"

definition jane :: "pyval \<Rightarrow> (string \<times> pyval) list" where
  "jane contact =
     [(''name'', PyStr (of_str ''Jane Doe'')), (''birthday'', PyStr (of_str ''1990-05-12'')),
      (''email'', PyStr (of_str ''jane@example.com'')), (''phone'', PyStr (of_str ''555-123-4567'')),
      (''address'', PyStr (of_str ''1 Main St'')), (''preferred_contact'', contact)]"

definition jane_row :: "pystr \<Rightarrow> row" where
  "jane_row contact =
     [(''id'', Integer 1), (''name'', Text (of_str ''Jane Doe'')), (''birthday'', Text (of_str ''1990-05-12'')),
      (''email'', Text (of_str ''jane@example.com'')), (''phone'', Text (of_str ''555-123-4567'')),
      (''address'', Text (of_str ''1 Main St'')), (''preferred_contact'', Text contact),
      (''created_at'', Text (of_str ''2025-01-01 00:00:00''))]"

text \<open>\<open>saves ev d\<close>: if the call \<open>ev\<close> is a save, it saves the record \<open>d\<close>.\<close>

fun saves :: "event \<Rightarrow> (string \<times> pyval) list \<Rightarrow> bool" where
  "saves (SaveToDb d) d' = (d = d')"
| "saves _ d' = True"










text \<open>The valid submission of the specification, trimmed and with white space around.\<close>

definition jane_form :: form where
  "jane_form = \<lparr>var_name = of_str ''Jane Doe'', var_bday = of_str ''1990-05-12'',
     var_email = of_str ''jane@example.com'', var_phone = of_str ''555-123-4567'',
     var_contact = of_str ''Email'', txt_address = of_str ''1 Main St''\<rparr>"

definition spaced_form :: form where
  "spaced_form = \<lparr>var_name = of_str ''  Jane Doe '', var_bday = of_str '' 1990-05-12'',
     var_email = of_str '' jane@example.com '', var_phone = of_str ''555-123-4567  '',
     var_contact = of_str ''Email '', txt_address = [10] @ of_str ''1 Main St'' @ [9, 10]\<rparr>"




definition DASH_RE :: re where
  "DASH_RE = Lit CHR ''-''"



section \<open>Properties of the matcher\<close>

lemma takeWhile_len_iff:
  "j \<le> length (takeWhile P xs) \<longleftrightarrow> (\<exists>a r. xs = a @ r \<and> length a = j \<and> list_all P a)"
proof
  assume h: "j \<le> length (takeWhile P xs)"
  have "xs = take j xs @ drop j xs" by simp
  moreover have "length (take j xs) = j"
    using h length_takeWhile_le [of P xs] by simp
  moreover have "list_all P (take j xs)"
  proof -
    have "take j xs = take j (takeWhile P xs)"
      using h by (metis append_eq_conv_conj takeWhile_dropWhile_id take_append take_all_iff min.absorb2 diff_is_0_eq take0 append_Nil2 length_take)
    then show ?thesis
      by (metis list_all_iff in_set_takeD set_takeWhileD)
  qed
  ultimately show "\<exists>a r. xs = a @ r \<and> length a = j \<and> list_all P a" by blast
next
  assume "\<exists>a r. xs = a @ r \<and> length a = j \<and> list_all P a"
  then obtain a r where x: "xs = a @ r" and l: "length a = j" and p: "list_all P a" by blast
  have "takeWhile P (a @ r) = a @ takeWhile P r"
    using p by (simp add: list_all_iff takeWhile_append2)
  then show "j \<le> length (takeWhile P xs)" using x l by simp
qed

lemma run_Rep_ex:
  "(\<exists>st \<in> set (run (Rep neg its m) (n, rest, caps)). Q st) \<longleftrightarrow>
   (\<exists>a r. rest = a @ r \<and> m \<le> length a \<and> list_all (in_class neg its) a \<and> Q (n + length a, r, caps))"
  (is "?L \<longleftrightarrow> ?R")
proof
  assume ?L
  then obtain j where j: "m \<le> j" "j \<le> length (takeWhile (in_class neg its) rest)"
    and q: "Q (n + j, drop j rest, caps)"
    by (auto simp: Let_def)
  from j(2) obtain a r where "rest = a @ r" "length a = j" "list_all (in_class neg its) a"
    unfolding takeWhile_len_iff by blast
  with j(1) q show ?R by auto
next
  assume ?R
  then obtain a r where a: "rest = a @ r" "m \<le> length a" "list_all (in_class neg its) a"
    and q: "Q (n + length a, r, caps)" by blast
  have le: "length a \<le> length (takeWhile (in_class neg its) rest)"
    unfolding takeWhile_len_iff using a by blast
  have "(n + length a, drop (length a) rest, caps) \<in> set (run (Rep neg its m) (n, rest, caps))"
    using le a(2) by (cases "length a = length (takeWhile (in_class neg its) rest)") (auto simp: Let_def image_iff)
  moreover have "drop (length a) rest = r" using a(1) by simp
  ultimately show ?L using q by metis
qed


lemma run_Seq_nonempty:
  "run (Seq r1 r2) st \<noteq> [] \<longleftrightarrow> (\<exists>st' \<in> set (run r1 st). run r2 st' \<noteq> [])"
  by auto

lemma re_match_iff: "re_match r s \<noteq> None \<longleftrightarrow> run r (0, s, []) \<noteq> []"
  by (simp add: re_match_def split: list.splits)



lemma run_Bol0: "run Bol (0, s, caps) = [(0, s, caps)]" by simp
lemma run_Eol_nonempty: "run Eol (n, r, caps) \<noteq> [] \<longleftrightarrow> r = [] \<or> r = [10]" by simp



lemma in_class_phone:
  "in_class False [Rng (of_char CHR ''0'') (of_char CHR ''9''), CatSpace, Ch (of_char CHR ''-''),
                     Ch (of_char CHR ''+''), Ch (of_char CHR ''(''), Ch (of_char CHR '')'')] = phone_char"
  by (auto simp: in_class_def phone_char_def fun_eq_iff of_str_def)

lemma validate_phone_run:
  "validate_phone s \<longleftrightarrow>
    (\<exists>a r. s = a @ r \<and> 7 \<le> length a \<and> list_all phone_char a \<and> (r = [] \<or> r = [10]))"
  unfolding validate_phone_def re_match_iff PHONE_RE_def cat.simps
  apply (simp only: run_Seq_nonempty run_Bol0 list.set bex_simps ball_simps run_Rep_ex run_Eol_nonempty in_class_phone)
  apply (simp only: simp_thms)
  done

lemma phone_char_newline: "phone_char 10"
  by (simp add: phone_char_def py_isspace_def)

lemma validate_phone_iff:
  "validate_phone s \<longleftrightarrow> list_all phone_char s \<and> 7 \<le> length s"
  unfolding validate_phone_run
  using phone_char_newline by (auto simp: list_all_iff)

lemmas eval_defs = validate_phone_def validate_email_def validate_name_def validate_address_def
  re_match_def PHONE_RE_def EMAIL_RE_def of_str_def Lit_def in_class_def py_isspace_def py_strip_def

lemma email_shape_last: "email_shape s \<Longrightarrow> s \<noteq> [] \<and> \<not> py_isspace (last s)"
  by (auto simp: email_shape_def email_char_def list_all_iff)

text \<open>
  C4. The email check accepts \<open>a@b.co\<close> followed by a newline, which is not of the shape
  the claim describes: \<open>$\<close> also matches just before a newline that ends the subject.
\<close>

theorem validate_email_trailing_newline:
  "validate_email (of_str ''a@b.co'' @ [10]) \<and> \<not> email_shape (of_str ''a@b.co'' @ [10])"
proof
  show "validate_email (of_str ''a@b.co'' @ [10])"
    by (simp add: eval_defs)
  have "py_isspace (last (of_str ''a@b.co'' @ [10]))"
    by (simp add: py_isspace_def)
  then show "\<not> email_shape (of_str ''a@b.co'' @ [10])"
    using email_shape_last by blast
qed

text \<open>
  C5, as the claim states it, fails: a phone number with a TAB inside is accepted, and TAB
  is not among digit, space, \<open>+\<close>, \<open>-\<close>, \<open>(\<close>, \<open>)\<close>.
\<close>

theorem validate_phone_tab_counterexample:
  "\<not> (validate_phone (of_str ''123'' @ [9] @ of_str ''4567'') \<longleftrightarrow>
      phone_spec (of_str ''123'' @ [9] @ of_str ''4567''))"
  by (simp add: eval_defs phone_spec_def phone_char_spec_def)

text \<open>
  C5, amended: the phone check accepts exactly the strings of length 7 or more made of
  ASCII digits, white-space characters (any that \<open>\s\<close> matches), \<open>+\<close>, \<open>-\<close>, \<open>(\<close> and
  \<open>)\<close>; it accepts \<open>123-456-7890\<close> and rejects \<open>12345\<close> and \<open>12a4567\<close>.
\<close>

theorem validate_phone_amended:
  "(validate_phone s \<longleftrightarrow> list_all phone_char s \<and> 7 \<le> length s) \<and>
   validate_phone (of_str ''123-456-7890'') \<and>
   \<not> validate_phone (of_str ''12345'') \<and>
   \<not> validate_phone (of_str ''12a4567'')"
proof (intro conjI)
  show "validate_phone s \<longleftrightarrow> list_all phone_char s \<and> 7 \<le> length s"
    by (rule validate_phone_iff)
  show "validate_phone (of_str ''123-456-7890'')" by (simp add: eval_defs)
  show "\<not> validate_phone (of_str ''12345'')" by (simp add: eval_defs)
  show "\<not> validate_phone (of_str ''12a4567'')" by (simp add: eval_defs)
qed

lemmas bday_defs = validate_birthday_def strptime_def re_match_def STRPTIME_RE_def rng_def Lit_def
  in_class_def py_decimal_def decimal_zeros_def group_def py_int_def py_strip_def py_isspace_def
  datetime_date_def days_in_month_def is_leap_def of_str_def

lemma length_iso_format: "length (iso_format dt) = 10"
  by (simp add: iso_format_def)

text \<open>
  C2. The birthday check accepts \<open>1990-5-1\<close>, which is not the \<open>YYYY-MM-DD\<close> rendering
  of any date: \<open>strptime\<close> reads a month and a day of one digit.
\<close>

theorem validate_birthday_unpadded:
  "validate_birthday (of_str ''1990-5-1'') \<and> \<not> birthday_spec (of_str ''1990-5-1'')"
proof
  show "validate_birthday (of_str ''1990-5-1'')"
    by (simp add: bday_defs)
  show "\<not> birthday_spec (of_str ''1990-5-1'')"
  proof
    assume "birthday_spec (of_str ''1990-5-1'')"
    then obtain dt where "of_str ''1990-5-1'' = iso_format dt"
      by (auto simp: birthday_spec_def)
    then have "length (of_str ''1990-5-1'') = 10"
      by (simp only: length_iso_format)
    then show False by (simp add: of_str_def)
  qed
qed

lemmas msg_defs = MSG_NAME_def MSG_BDAY_def MSG_EMAIL_def MSG_PHONE_def MSG_ADDRESS_def
  MSG_CONTACT_def bullet_def of_str_def

lemma validate_all_append:
  "validate_all name bday email phone address contact =
     (if validate_name name then [] else [MSG_NAME]) @
     (if validate_birthday bday then [] else [MSG_BDAY]) @
     (if validate_email email then [] else [MSG_EMAIL]) @
     (if validate_phone phone then [] else [MSG_PHONE]) @
     (if validate_address address then [] else [MSG_ADDRESS]) @
     (if contact \<in> set CONTACTS then [] else [MSG_CONTACT])"
  by (simp add: validate_all_def)

lemma validate_all_empty_iff:
  "validate_all name bday email phone address contact = [] \<longleftrightarrow>
     validate_name name \<and> validate_birthday bday \<and> validate_email email \<and>
     validate_phone phone \<and> validate_address address \<and> contact \<in> set CONTACTS"
  by (simp add: validate_all_append)

lemma all_invalid:
  "validate_all [] (of_str ''1990-13-40'') (of_str ''bad'') (of_str ''123'') [] (of_str ''Fax'') =
     [MSG_NAME, MSG_BDAY, MSG_EMAIL, MSG_PHONE, MSG_ADDRESS, MSG_CONTACT]"
proof -
  have "\<not> validate_name []" by (simp add: eval_defs)
  moreover have "\<not> validate_birthday (of_str ''1990-13-40'')" by (simp add: bday_defs)
  moreover have "\<not> validate_email (of_str ''bad'')" by (simp add: eval_defs)
  moreover have "\<not> validate_phone (of_str ''123'')" by (simp add: eval_defs)
  moreover have "\<not> validate_address []" by (simp add: eval_defs)
  moreover have "of_str ''Fax'' \<notin> set CONTACTS" by (simp add: CONTACTS_def of_str_def)
  ultimately show ?thesis by (simp add: validate_all_append)
qed

lemma msgs_distinct: "distinct [MSG_NAME, MSG_BDAY, MSG_EMAIL, MSG_PHONE, MSG_ADDRESS, MSG_CONTACT]"
  by (simp add: msg_defs)

text \<open>
  C1. The validation block runs the six checks one after the other, none depending on
  another: its result is the messages of the failing checks in the order name, birthday,
  email, phone, address, preferred contact, the six messages being pairwise different. It
  is empty exactly when every check passes, and on the all-invalid submission it is the
  six messages in that order.
\<close>

theorem validate_all_messages:
  "validate_all name bday email phone address contact =
     (if validate_name name then [] else [MSG_NAME]) @
     (if validate_birthday bday then [] else [MSG_BDAY]) @
     (if validate_email email then [] else [MSG_EMAIL]) @
     (if validate_phone phone then [] else [MSG_PHONE]) @
     (if validate_address address then [] else [MSG_ADDRESS]) @
     (if contact \<in> set CONTACTS then [] else [MSG_CONTACT]) \<and>
   distinct [MSG_NAME, MSG_BDAY, MSG_EMAIL, MSG_PHONE, MSG_ADDRESS, MSG_CONTACT] \<and>
   (validate_all name bday email phone address contact = [] \<longleftrightarrow>
      validate_name name \<and> validate_birthday bday \<and> validate_email email \<and>
      validate_phone phone \<and> validate_address address \<and> contact \<in> set CONTACTS) \<and>
   validate_all [] (of_str ''1990-13-40'') (of_str ''bad'') (of_str ''123'') [] (of_str ''Fax'') =
     [MSG_NAME, MSG_BDAY, MSG_EMAIL, MSG_PHONE, MSG_ADDRESS, MSG_CONTACT]"
  using validate_all_append [of name bday email phone address contact]
    validate_all_empty_iff [of name bday email phone address contact] all_invalid msgs_distinct
  by blast

section \<open>The submit action\<close>

lemma on_submit_invalid_eq:
  "form_errors f \<noteq> [] \<Longrightarrow>
   on_submit e f db =
     (f, db, [ShowError (of_str ''Please fix the following'') (py_join [10] (form_errors f))])"
  by (simp add: on_submit_def form_errors_def Let_def)

lemma on_submit_valid_eq:
  "form_errors f = [] \<Longrightarrow>
   on_submit e f db =
     (case save_to_db e (form_record f) db of
        (Inr _, db') \<Rightarrow>
          (clear_form f, db',
           [SaveToDb (form_record f), ShowInfo (of_str ''Success'') (of_str ''Customer information saved.'')])
      | (Inl err, db') \<Rightarrow>
          (f, db',
           [SaveToDb (form_record f),
            ShowErrorExc (of_str ''Error'') (of_str ''Could not save data:'' @ [10]) err]))"
  unfolding form_record_def form_errors_def on_submit_def Let_def
  by simp

lemma strip_lits:
  "py_strip [] = []" "py_strip (of_str ''1990-13-40'') = of_str ''1990-13-40''"
  "py_strip (of_str ''bad'') = of_str ''bad''" "py_strip (of_str ''123'') = of_str ''123''"
  "py_strip (of_str ''Fax'') = of_str ''Fax''" "py_strip (txt_get_all []) = []"
  by (simp_all add: py_strip_def py_isspace_def of_str_def txt_get_all_def)

lemma form_errors_invalid:
  "form_errors invalid_form = [MSG_NAME, MSG_BDAY, MSG_EMAIL, MSG_PHONE, MSG_ADDRESS, MSG_CONTACT]"
  unfolding form_errors_def invalid_form_def
  by (simp only: form.simps strip_lits all_invalid)

text \<open>
  C3. When at least one check fails, \<open>on_submit\<close> shows the ordered list of messages,
  does not call \<open>save_to_db\<close>, and leaves the database and the form as they were.
\<close>

theorem on_submit_invalid:
  assumes "form_errors f \<noteq> []"
  shows "on_submit e f db =
           (f, db, [ShowError (of_str ''Please fix the following'') (py_join [10] (form_errors f))]) \<and>
         \<not> list_ex is_save (snd (snd (on_submit e f db)))"
  using assms by (simp add: on_submit_invalid_eq)

theorem on_submit_invalid_witness:
  "form_errors invalid_form \<noteq> [] \<and>
   on_submit ok_env invalid_form None =
     (invalid_form, None,
      [ShowError (of_str ''Please fix the following'')
         (py_join [10] [MSG_NAME, MSG_BDAY, MSG_EMAIL, MSG_PHONE, MSG_ADDRESS, MSG_CONTACT])])"
proof -
  have h: "form_errors invalid_form \<noteq> []"
    by (simp add: form_errors_invalid)
  show ?thesis
    using h on_submit_invalid [OF h, of ok_env None]
    by (simp add: form_errors_invalid)
qed

section \<open>The store\<close>

lemma init_db_eq:
  "init_db e db =
     (if connect_ok e \<and> execute_ok e then (Inr (), create_table_if_not_exists TABLE_SQL db)
      else (Inl OperationalError, db))"
  by (simp add: init_db_def sqlite3_connect_def execute_create_def con_commit_def con_close_def)

lemma create_twice:
  "create_table_if_not_exists sch (create_table_if_not_exists sch db) = create_table_if_not_exists sch db"
  by (cases db) (simp_all add: create_table_if_not_exists_def)

text \<open>
  C9. When the file can be opened and the statement run, \<open>init_db\<close> raises nothing,
  running it again raises nothing and changes nothing, and it creates the table (empty,
  with the schema of \<open>TABLE_SQL\<close>) only when the table is absent: an existing table
  keeps its schema and its rows.
\<close>

theorem init_db_idempotent:
  assumes "connect_ok e1" "execute_ok e1" "connect_ok e2" "execute_ok e2"
  shows "fst (init_db e1 db) = Inr () \<and>
         init_db e2 (snd (init_db e1 db)) = (Inr (), snd (init_db e1 db)) \<and>
         snd (init_db e1 db) = (case db of None \<Rightarrow> Some \<lparr>t_schema = TABLE_SQL, t_rows = [], t_seq = 0\<rparr> | Some t \<Rightarrow> Some t)"
  using assms by (simp add: init_db_eq create_twice) (simp add: create_table_if_not_exists_def)

theorem init_db_idempotent_witness:
  "connect_ok ok_env \<and> execute_ok ok_env \<and>
   init_db ok_env None = (Inr (), Some empty_table) \<and>
   init_db ok_env (Some empty_table) = (Inr (), Some empty_table) \<and>
   init_db ok_env (Some \<lparr>t_schema = TABLE_SQL, t_rows = [jane_row (of_str ''Email'')], t_seq = 1\<rparr>) =
     (Inr (), Some \<lparr>t_schema = TABLE_SQL, t_rows = [jane_row (of_str ''Email'')], t_seq = 1\<rparr>)"
proof -
  have h: "connect_ok ok_env" "execute_ok ok_env" by (simp_all add: ok_env_def)
  show ?thesis
    using h init_db_idempotent [OF h h, of None]
      init_db_idempotent [OF h h, of "Some \<lparr>t_schema = TABLE_SQL, t_rows = [jane_row (of_str ''Email'')], t_seq = 1\<rparr>"]
    by (simp add: empty_table_def prod_eq_iff init_db_eq create_table_if_not_exists_def)
qed

lemma save_to_db_cases:
  "save_to_db e data db =
    (if \<not> connect_ok e then (Inl OperationalError, db)
     else case sql_prepare_insert db of
       Inl err \<Rightarrow> (Inl err, db)
     | Inr t \<Rightarrow>
        (case bind_parameters data of
           Inl err \<Rightarrow> (Inl err, db)
         | Inr bound \<Rightarrow>
            if \<not> execute_ok e then (Inl OperationalError, db)
            else (case sql_step_insert e bound t of
                    Inl err \<Rightarrow> (Inl err, db)
                  | Inr t' \<Rightarrow> if commit_ok e then (Inr (), Some t') else (Inl OperationalError, db))))"
  by (simp add: save_to_db_def sqlite3_connect_def with_con_def execute_insert_def current_def
      con_commit_def con_rollback_def con_close_def Let_def split: sum.splits)

lemma bind_value_Inl: "bind_value v = Inl err \<Longrightarrow> \<not> bindable v"
  by (simp add: bindable_def)

lemma bind_value_stored: "bind_value v = Inr x \<Longrightarrow> apply_affinity n TEXT x = stored v"
  by (cases v) (auto simp: bind_sized_def split: if_splits)

lemma bind_all_Inr:
  "bind_all cs data = Inr bound \<Longrightarrow> c \<in> set cs \<Longrightarrow>
   \<exists>v x. map_of data c = Some v \<and> bind_value v = Inr x \<and> map_of bound c = Some x"
proof (induction cs arbitrary: bound)
  case Nil
  then show ?case by simp
next
  case (Cons a cs)
  from Cons.prems(1) obtain v x xs where a: "map_of data a = Some v" "bind_value v = Inr x"
    and r: "bind_all cs data = Inr xs" and b: "bound = (a, x) # xs"
    by (auto split: option.splits sum.splits)
  show ?case
  proof (cases "c = a")
    case True
    then show ?thesis using a b by simp
  next
    case False
    with Cons.prems(2) have "c \<in> set cs" by simp
    from Cons.IH [OF r this] show ?thesis using b False by simp
  qed
qed

lemma bind_all_Inl:
  "bind_all cs data = Inl err \<Longrightarrow>
   sqlite_error err \<or> \<not> list_all (\<lambda>c. case map_of data c of None \<Rightarrow> True | Some v \<Rightarrow> bindable v) cs"
proof (induction cs)
  case Nil
  then show ?case by simp
next
  case (Cons a cs)
  then show ?case
    by (auto simp: sqlite_error_def dest: bind_value_Inl split: option.splits sum.splits)
qed

lemma bind_all_total:
  "list_all (\<lambda>c. map_of data c \<noteq> None) cs \<Longrightarrow>
   list_all (\<lambda>c. case map_of data c of None \<Rightarrow> True | Some v \<Rightarrow> bindable v) cs \<Longrightarrow>
   \<exists>bound. bind_all cs data = Inr bound"
  by (induction cs) (auto simp: bindable_def split: sum.splits)

lemma bind_parameters_Inl:
  "bind_parameters data = Inl err \<Longrightarrow> sqlite_error err \<or> \<not> record_bindable data"
  unfolding bind_parameters_def record_bindable_def by (rule bind_all_Inl)

lemma bind_parameters_total:
  "record_complete data \<Longrightarrow> record_bindable data \<Longrightarrow> \<exists>bound. bind_parameters data = Inr bound"
  unfolding bind_parameters_def record_bindable_def record_complete_def by (rule bind_all_total)

lemma bind_parameters_lookup:
  "bind_parameters data = Inr bound \<Longrightarrow> c \<in> set INSERT_COLUMNS \<Longrightarrow>
   \<exists>v x. map_of data c = Some v \<and> bind_value v = Inr x \<and> map_of bound c = Some x"
  unfolding bind_parameters_def by (rule bind_all_Inr)

lemma sql_step_insert_Inr:
  "sql_step_insert e bound t = Inr t' \<Longrightarrow>
   t' = t\<lparr>t_rows := t_rows t @ [new_row e bound t], t_seq := Suc (t_seq t)\<rparr>"
  by (auto simp: sql_step_insert_def new_row_def Let_def split: if_splits)

lemma prepare_TABLE_SQL:
  "t_schema t = TABLE_SQL \<Longrightarrow> sql_prepare_insert (Some t) = Inr t"
  by (simp add: sql_prepare_insert_def TABLE_SQL_def INSERT_COLUMNS_def)

lemma text_column_value:
  assumes "bind_parameters data = Inr bound" "c \<in> set INSERT_COLUMNS"
  shows "\<exists>v. map_of data c = Some v \<and> column_value e next bound (c, TEXT, cs) = stored v"
proof -
  from bind_parameters_lookup [OF assms] obtain v x where
    "map_of data c = Some v" "bind_value v = Inr x" "map_of bound c = Some x" by blast
  then show ?thesis by (simp add: column_value_def bind_value_stored)
qed

lemma new_row_lookup:
  assumes "t_schema t = TABLE_SQL" "bind_parameters data = Inr bound" "c \<in> set INSERT_COLUMNS"
  shows "map_of (new_row e bound t) c = map_option stored (map_of data c)"
proof -
  from text_column_value [OF assms(2) assms(3)] obtain v where
    v: "map_of data c = Some v" "\<And>cs. column_value e (Suc (t_seq t)) bound (c, TEXT, cs) = stored v"
    by (metis option.inject)
  from assms(3) have "c = ''name'' \<or> c = ''birthday'' \<or> c = ''email'' \<or> c = ''phone'' \<or>
      c = ''address'' \<or> c = ''preferred_contact''"
    by (simp add: INSERT_COLUMNS_def)
  then show ?thesis
    unfolding new_row_def assms(1) TABLE_SQL_def using v
    by (elim disjE) simp_all
qed

lemma save_to_db_outcome:
  assumes "customers_db db"
  shows "(\<exists>err. save_to_db e data db = (Inl err, db) \<and> (sqlite_error err \<or> \<not> record_bindable data)) \<or>
   (\<exists>t r. db = Some t \<and>
      save_to_db e data db = (Inr (), Some (t\<lparr>t_rows := t_rows t @ [r], t_seq := Suc (t_seq t)\<rparr>)) \<and>
      map fst r = map fst (t_schema t) \<and>
      list_all (\<lambda>c. map_of r c = map_option stored (map_of data c)) INSERT_COLUMNS)"
proof (cases "save_to_db e data db")
  case (Pair res db')
  show ?thesis
  proof (cases res)
    case (Inl err)
    with Pair have "db' = db \<and> (sqlite_error err \<or> \<not> record_bindable data)"
      by (auto simp: save_to_db_cases sql_prepare_insert_def sql_step_insert_def Let_def sqlite_error_def
          dest: bind_parameters_Inl split: if_splits sum.splits option.splits)
    with Pair Inl show ?thesis by simp
  next
    case (Inr u)
    with Pair obtain t bound t' where p: "sql_prepare_insert db = Inr t"
      and b: "bind_parameters data = Inr bound"
      and s: "sql_step_insert e bound t = Inr t'" and d: "db' = Some t'"
      by (auto simp: save_to_db_cases split: if_splits sum.splits)
    from p have dbt: "db = Some t"
      by (auto simp: sql_prepare_insert_def split: option.splits if_splits)
    with assms have sch: "t_schema t = TABLE_SQL" by (simp add: customers_db_def)
    note t' = sql_step_insert_Inr [OF s]
    have "map fst (new_row e bound t) = map fst (t_schema t)"
      by (simp add: new_row_def comp_def)
    moreover have "list_all (\<lambda>c. map_of (new_row e bound t) c = map_option stored (map_of data c)) INSERT_COLUMNS"
      using new_row_lookup [OF sch b] by (simp add: list_all_iff)
    ultimately show ?thesis using Pair Inr d t' dbt by auto
  qed
qed

text \<open>
  C8. On a database that this program made, \<open>save_to_db\<close> either raises and leaves the
  database as it was, or adds exactly one row that has a value for every column of the
  table and, for the six columns of the statement, the values of \<open>data\<close> as a TEXT
  column stores them; this holds whichever of opening, running and committing fails. The
  exception is one of \<open>sqlite3\<close> unless a value of the record cannot be bound (a \<open>str\<close>
  that UTF-8 cannot encode, an \<open>int\<close> beyond 64 bits, a \<open>str\<close> or \<open>bytes\<close> beyond the
  size the engine takes), which is found before anything is written.
\<close>

theorem save_to_db_atomic:
  assumes "customers_db db"
  shows "(\<exists>err. save_to_db e data db = (Inl err, db) \<and> (sqlite_error err \<or> \<not> record_bindable data)) \<or>
   (\<exists>t r. db = Some t \<and>
      save_to_db e data db = (Inr (), Some (t\<lparr>t_rows := t_rows t @ [r], t_seq := Suc (t_seq t)\<rparr>)) \<and>
      map fst r = map fst (t_schema t) \<and>
      list_all (\<lambda>c. map_of r c = map_option stored (map_of data c)) INSERT_COLUMNS)"
  using assms by (rule save_to_db_outcome)

lemmas store_defs = save_to_db_cases ok_env_def jane_def empty_table_def sql_prepare_insert_def
  bind_parameters_def sql_step_insert_def column_value_def TABLE_SQL_def INSERT_COLUMNS_def
  of_str_def Let_def utf8_char_def bind_sized_def utf8_length_def utf8_size_def INT_MAX_def
  SQLITE_MAX_LENGTH_def written_value_def record_size_def varint_len_def

lemma save_jane:
  "save_to_db ok_env (jane (PyStr (of_str ''Email''))) (Some empty_table) =
     (Inr (), Some \<lparr>t_schema = TABLE_SQL, t_rows = [jane_row (of_str ''Email'')], t_seq = 1\<rparr>)"
  by (simp add: store_defs jane_row_def)

lemma digits_of_hd: "digits_of n \<noteq> [] \<and> 48 \<le> hd (digits_of n) \<and> hd (digits_of n) \<le> 57"
proof (induction n rule: digits_of.induct)
  case (1 n)
  show ?case
  proof (cases "n < 10")
    case True
    then show ?thesis by simp
  next
    case False
    with 1 have "digits_of (n div 10) \<noteq> [] \<and> 48 \<le> hd (digits_of (n div 10)) \<and> hd (digits_of (n div 10)) \<le> 57"
      by simp
    then show ?thesis using False by (subst (1 2 3) digits_of.simps) simp
  qed
qed

lemma text_of_int_hd: "text_of_int i \<noteq> [] \<and> hd (text_of_int i) \<le> 57"
  using digits_of_hd by (simp add: text_of_int_def)

lemma text_of_int_not_contact: "text_of_int i \<notin> set CONTACTS"
proof
  assume "text_of_int i \<in> set CONTACTS"
  then have "hd (text_of_int i) \<in> {69, 80, 77}"
    by (auto simp: CONTACTS_def of_str_def)
  with text_of_int_hd [of i] show False by auto
qed

lemma stored_not_contact:
  "v \<notin> PyStr ` set CONTACTS \<Longrightarrow> stored v \<notin> Text ` set CONTACTS"
  using text_of_int_not_contact by (cases v) auto

lemma step_rejects_contact:
  assumes "t_schema t = TABLE_SQL" "bind_parameters data = Inr bound"
    and "map_of data ''preferred_contact'' \<notin> Some ` PyStr ` set CONTACTS"
  shows "sql_step_insert e bound t =
           (if Suc (t_seq t) > 2 ^ 63 - 1 then Inl OperationalError else Inl IntegrityError)"
proof -
  let ?cs = "[NotNull, CheckIn [of_str ''Email'', of_str ''Phone'', of_str ''Mail'']]"
  let ?v = "column_value e (Suc (t_seq t)) bound (''preferred_contact'', TEXT, ?cs)"
  have "''preferred_contact'' \<in> set INSERT_COLUMNS" by (simp add: INSERT_COLUMNS_def)
  from text_column_value [OF assms(2) this] obtain v where
    v: "map_of data ''preferred_contact'' = Some v" "?v = stored v" by blast
  from v(1) assms(3) have "v \<notin> PyStr ` set CONTACTS" by auto
  then have "stored v \<notin> Text ` set CONTACTS" by (rule stored_not_contact)
  then have "\<not> (?v \<noteq> Null \<and> (?v = Null \<or> ?v \<in> Text ` set [of_str ''Email'', of_str ''Phone'', of_str ''Mail'']))"
    unfolding v(2) by (auto simp: CONTACTS_def)
  then have "\<not> list_all (\<lambda>col. list_all (constr_ok (column_value e (Suc (t_seq t)) bound col)) (snd (snd col))) TABLE_SQL"
    unfolding TABLE_SQL_def by (simp del: set_simps image_insert)
  then show ?thesis
    using assms(1) by (simp add: sql_step_insert_def Let_def)
qed

theorem save_to_db_atomic_witness:
  "customers_db (Some empty_table) \<and>
   save_to_db ok_env (jane (PyStr (of_str ''Email''))) (Some empty_table) =
     (Inr (), Some \<lparr>t_schema = TABLE_SQL, t_rows = [jane_row (of_str ''Email'')], t_seq = 1\<rparr>) \<and>
   save_to_db (ok_env\<lparr>commit_ok := False\<rparr>) (jane (PyStr (of_str ''Email''))) (Some empty_table) =
     (Inl OperationalError, Some empty_table) \<and>
   save_to_db ok_env (jane (PyStr [0xD800])) (Some empty_table) =
     (Inl UnicodeEncodeError, Some empty_table)"
proof -
  have c: "customers_db (Some empty_table)" by (simp add: customers_db_def empty_table_def)
  have a: "save_to_db (ok_env\<lparr>commit_ok := False\<rparr>) (jane (PyStr (of_str ''Email''))) (Some empty_table) \<noteq>
        (Inr (), Some (empty_table\<lparr>t_rows := t_rows empty_table @ [r], t_seq := Suc (t_seq empty_table)\<rparr>))" for r
    by (simp add: store_defs)
  have b: "fst (save_to_db (ok_env\<lparr>commit_ok := False\<rparr>) (jane (PyStr (of_str ''Email''))) (Some empty_table)) =
        Inl OperationalError"
    by (simp add: store_defs)
  from save_to_db_atomic [OF c, of "ok_env\<lparr>commit_ok := False\<rparr>" "jane (PyStr (of_str ''Email''))"] a b
  have "save_to_db (ok_env\<lparr>commit_ok := False\<rparr>) (jane (PyStr (of_str ''Email''))) (Some empty_table) =
     (Inl OperationalError, Some empty_table)"
    by auto
  moreover have "save_to_db ok_env (jane (PyStr [0xD800])) (Some empty_table) =
     (Inl UnicodeEncodeError, Some empty_table)"
    by (simp add: store_defs)
  ultimately show ?thesis using save_jane c by simp
qed

text \<open>
  C7. On a table with the schema of \<open>TABLE_SQL\<close>, \<open>save_to_db\<close> called directly with a
  record whose preferred contact is not one of the three literals (another text, \<open>None\<close>,
  a number, a \<open>bytes\<close>, or no value at all) always raises and stores nothing; when nothing
  else fails first (the file opens, the statement runs, the record has its six values
  and they can be bound, the row ids are not used up) the exception is the constraint
  violation \<open>IntegrityError\<close>.
\<close>

theorem save_to_db_rejects_contact:
  assumes "t_schema t = TABLE_SQL"
    and "map_of data ''preferred_contact'' \<notin> Some ` PyStr ` set CONTACTS"
  shows "(\<exists>err. save_to_db e data (Some t) = (Inl err, Some t)) \<and>
         (connect_ok e \<and> execute_ok e \<and> record_complete data \<and> record_bindable data \<and>
          Suc (t_seq t) \<le> 2 ^ 63 - 1 \<longrightarrow>
          save_to_db e data (Some t) = (Inl IntegrityError, Some t))"
proof (cases "bind_parameters data")
  case (Inl err)
  then show ?thesis
    using bind_parameters_total [of data]
    by (auto simp: save_to_db_cases prepare_TABLE_SQL [OF assms(1)])
next
  case (Inr bound)
  show ?thesis
    using step_rejects_contact [OF assms(1) Inr assms(2)]
    by (simp add: save_to_db_cases prepare_TABLE_SQL [OF assms(1)] Inr)
qed

theorem save_to_db_rejects_contact_witness:
  "t_schema empty_table = TABLE_SQL \<and>
   map_of (jane (PyStr (of_str ''Fax''))) ''preferred_contact'' \<notin> Some ` PyStr ` set CONTACTS \<and>
   save_to_db ok_env (jane (PyStr (of_str ''Fax''))) (Some empty_table) =
     (Inl IntegrityError, Some empty_table) \<and>
   map_of (jane (PyBytes (of_str ''Email''))) ''preferred_contact'' \<notin> Some ` PyStr ` set CONTACTS \<and>
   save_to_db ok_env (jane (PyBytes (of_str ''Email''))) (Some empty_table) =
     (Inl IntegrityError, Some empty_table)"
proof -
  have h1: "t_schema empty_table = TABLE_SQL" by (simp add: empty_table_def)
  have h2: "map_of (jane v) ''preferred_contact'' \<notin> Some ` PyStr ` set CONTACTS"
    if "v \<notin> PyStr ` set CONTACTS" for v
    using that by (auto simp: jane_def)
  have a: "PyStr (of_str ''Fax'') \<notin> PyStr ` set CONTACTS" "PyBytes (of_str ''Email'') \<notin> PyStr ` set CONTACTS"
    by (auto simp: CONTACTS_def of_str_def)
  have h3: "record_complete (jane v)" for v
    by (simp add: jane_def record_complete_def INSERT_COLUMNS_def)
  have h4: "record_bindable (jane (PyStr (of_str ''Fax'')))" "record_bindable (jane (PyBytes (of_str ''Email'')))"
    by (simp_all add: jane_def record_bindable_def INSERT_COLUMNS_def bindable_def of_str_def utf8_char_def
        bind_sized_def utf8_length_def utf8_size_def INT_MAX_def SQLITE_MAX_LENGTH_def)
  show ?thesis
    using h1 h2 [OF a(1)] h2 [OF a(2)] h3 h4
      save_to_db_rejects_contact [OF h1 h2 [OF a(1)], of ok_env]
      save_to_db_rejects_contact [OF h1 h2 [OF a(2)], of ok_env]
    by (simp add: ok_env_def empty_table_def)
qed

section \<open>Birthdays of the \<open>YYYY-MM-DD\<close> shape\<close>






lemma run_dash: "run (Seq DASH_RE r) (n, 45 # rest, caps) = run r (Suc n, rest, caps)"
  by (simp add: DASH_RE_def Lit_def in_class_def)















section \<open>Stripping, and what gets stored\<close>

lemma py_strip_newline: "py_strip (s @ [10]) = py_strip s"
proof (cases "list_all py_isspace s")
  case True
  have nl: "py_isspace 10" by (simp add: py_isspace_def)
  from True nl have d: "dropWhile py_isspace s = []" "dropWhile py_isspace (s @ [10]) = []"
    by (simp_all add: list_all_iff)
  show ?thesis unfolding py_strip_def d ..
next
  case False
  then have "dropWhile py_isspace (s @ [10]) = dropWhile py_isspace s @ [10]"
    by (auto simp: list_all_iff)
  moreover have "py_isspace 10" by (simp add: py_isspace_def)
  ultimately show ?thesis by (simp add: py_strip_def)
qed

lemma form_errors_strip:
  "form_errors f =
     validate_all (py_strip (var_name f)) (py_strip (var_bday f)) (py_strip (var_email f))
       (py_strip (var_phone f)) (py_strip (txt_address f)) (py_strip (var_contact f))"
  by (simp add: form_errors_def txt_get_all_def py_strip_newline)

lemma form_record_strip:
  "form_record f =
     record_of (py_strip (var_name f)) (py_strip (var_bday f)) (py_strip (var_email f))
       (py_strip (var_phone f)) (py_strip (txt_address f)) (py_strip (var_contact f))"
  by (simp add: form_record_def txt_get_all_def py_strip_newline)

lemma on_submit_snd:
  "snd (on_submit e f db) =
     (if form_errors f \<noteq> []
      then (db, [ShowError (of_str ''Please fix the following'') (py_join [10] (form_errors f))])
      else case save_to_db e (form_record f) db of
             (Inr _, db') \<Rightarrow>
               (db', [SaveToDb (form_record f),
                      ShowInfo (of_str ''Success'') (of_str ''Customer information saved.'')])
           | (Inl err, db') \<Rightarrow>
               (db', [SaveToDb (form_record f),
                      ShowErrorExc (of_str ''Error'') (of_str ''Could not save data:'' @ [10]) err]))"
  by (auto simp: on_submit_invalid_eq on_submit_valid_eq split: prod.splits sum.splits)

lemma strip_jane:
  "py_strip (of_str ''Jane Doe'') = of_str ''Jane Doe''"
  "py_strip (of_str ''1990-05-12'') = of_str ''1990-05-12''"
  "py_strip (of_str ''jane@example.com'') = of_str ''jane@example.com''"
  "py_strip (of_str ''555-123-4567'') = of_str ''555-123-4567''"
  "py_strip (of_str ''1 Main St'') = of_str ''1 Main St''"
  "py_strip (of_str ''Email'') = of_str ''Email''"
  by (simp_all add: py_strip_def py_isspace_def of_str_def)

lemma strip_spaced:
  "py_strip (of_str ''  Jane Doe '') = of_str ''Jane Doe''"
  "py_strip (of_str '' 1990-05-12'') = of_str ''1990-05-12''"
  "py_strip (of_str '' jane@example.com '') = of_str ''jane@example.com''"
  "py_strip (of_str ''555-123-4567  '') = of_str ''555-123-4567''"
  "py_strip ([10] @ of_str ''1 Main St'' @ [9, 10]) = of_str ''1 Main St''"
  "py_strip (of_str ''Email '') = of_str ''Email''"
  by (simp_all add: py_strip_def py_isspace_def of_str_def)

lemma valid_jane:
  "validate_name (of_str ''Jane Doe'')"
  "validate_birthday (of_str ''1990-05-12'')"
  "validate_email (of_str ''jane@example.com'')"
  "validate_phone (of_str ''555-123-4567'')"
  "validate_address (of_str ''1 Main St'')"
  "of_str ''Email'' \<in> set CONTACTS"
proof -
  show "validate_name (of_str ''Jane Doe'')" by (simp add: eval_defs)
  show "validate_birthday (of_str ''1990-05-12'')" by (simp add: bday_defs)
  show "validate_email (of_str ''jane@example.com'')" by (simp add: eval_defs)
  show "validate_phone (of_str ''555-123-4567'')" by (simp add: eval_defs)
  show "validate_address (of_str ''1 Main St'')" by (simp add: eval_defs)
  show "of_str ''Email'' \<in> set CONTACTS" by (simp add: CONTACTS_def)
qed

lemma jane_form_ok: "form_errors jane_form = []" "form_record jane_form = jane (PyStr (of_str ''Email''))"
  by (simp_all add: form_errors_strip form_record_strip jane_form_def strip_jane
      validate_all_empty_iff valid_jane jane_def record_of_def)

lemma submit_jane:
  "on_submit ok_env jane_form (Some empty_table) =
     (clear_form jane_form,
      Some \<lparr>t_schema = TABLE_SQL, t_rows = [jane_row (of_str ''Email'')], t_seq = 1\<rparr>,
      [SaveToDb (jane (PyStr (of_str ''Email''))),
       ShowInfo (of_str ''Success'') (of_str ''Customer information saved.'')])"
  by (simp add: on_submit_valid_eq jane_form_ok save_jane)

text \<open>
  C10. \<open>on_submit\<close> strips the six raw values before it validates and before it saves:
  two forms whose fields are equal after stripping give the same database and the same
  calls (the same messages or the same saved record), and any save carries the stripped
  values.
\<close>

theorem on_submit_strips:
  assumes "py_strip (var_name f) = py_strip (var_name g)"
    and "py_strip (var_bday f) = py_strip (var_bday g)"
    and "py_strip (var_email f) = py_strip (var_email g)"
    and "py_strip (var_phone f) = py_strip (var_phone g)"
    and "py_strip (txt_address f) = py_strip (txt_address g)"
    and "py_strip (var_contact f) = py_strip (var_contact g)"
  shows "snd (on_submit e f db) = snd (on_submit e g db) \<and>
         list_all (\<lambda>ev. saves ev
             (record_of (py_strip (var_name f)) (py_strip (var_bday f)) (py_strip (var_email f))
                (py_strip (var_phone f)) (py_strip (txt_address f)) (py_strip (var_contact f))))
           (snd (snd (on_submit e f db)))"
proof
  have eqs: "form_errors f = form_errors g" "form_record f = form_record g"
    using assms by (simp_all add: form_errors_strip form_record_strip)
  show "snd (on_submit e f db) = snd (on_submit e g db)"
    unfolding on_submit_snd eqs ..
  show "list_all (\<lambda>ev. saves ev
             (record_of (py_strip (var_name f)) (py_strip (var_bday f)) (py_strip (var_email f))
                (py_strip (var_phone f)) (py_strip (txt_address f)) (py_strip (var_contact f))))
           (snd (snd (on_submit e f db)))"
    unfolding form_record_strip [symmetric]
    by (simp add: on_submit_snd split: prod.splits sum.splits)
qed

theorem on_submit_strips_witness:
  "py_strip (var_name spaced_form) = py_strip (var_name jane_form) \<and>
   py_strip (var_bday spaced_form) = py_strip (var_bday jane_form) \<and>
   py_strip (var_email spaced_form) = py_strip (var_email jane_form) \<and>
   py_strip (var_phone spaced_form) = py_strip (var_phone jane_form) \<and>
   py_strip (txt_address spaced_form) = py_strip (txt_address jane_form) \<and>
   py_strip (var_contact spaced_form) = py_strip (var_contact jane_form) \<and>
   \<not> validate_email (var_email spaced_form) \<and>
   snd (on_submit ok_env spaced_form (Some empty_table)) =
     (Some \<lparr>t_schema = TABLE_SQL, t_rows = [jane_row (of_str ''Email'')], t_seq = 1\<rparr>,
      [SaveToDb (jane (PyStr (of_str ''Email''))),
       ShowInfo (of_str ''Success'') (of_str ''Customer information saved.'')])"
proof -
  have h: "py_strip (var_name spaced_form) = py_strip (var_name jane_form)"
    "py_strip (var_bday spaced_form) = py_strip (var_bday jane_form)"
    "py_strip (var_email spaced_form) = py_strip (var_email jane_form)"
    "py_strip (var_phone spaced_form) = py_strip (var_phone jane_form)"
    "py_strip (txt_address spaced_form) = py_strip (txt_address jane_form)"
    "py_strip (var_contact spaced_form) = py_strip (var_contact jane_form)"
    by (simp_all only: spaced_form_def jane_form_def form.simps strip_jane strip_spaced)
  have e: "\<not> validate_email (var_email spaced_form)"
    by (simp add: spaced_form_def eval_defs)
  show ?thesis
    using h e on_submit_strips [OF h, of ok_env "Some empty_table"] submit_jane
    by simp
qed

section \<open>What the stored rows satisfy\<close>






















end
